theory Spec2Isabelle
  imports Complex_Main "HOL-Library.Char_ord" "HOL-Library.List_Lexorder"
begin

section \<open>Daily-Market-Brief: curated store builders, signal engine, price ingestion\<close>

text \<open>
  The analytical SQL of the repository is embedded as list functions: a table is a list of
  rows, a nullable numeric column is a \<open>real option\<close> (\<open>None\<close> is SQL NULL), a date and an
  ingestion key are their ISO-8601 text, ordered bytewise as the engine orders VARCHAR
  (for ISO dates that is the chronological order). DOUBLE arithmetic is taken over the
  reals. Where SQL leaves the order of tied rows open, the model keeps the order of the
  input (a stable sort).
\<close>

subsection \<open>Errors\<close>

datatype error =
    NoFilesMatch
  | SilverPriceEmpty
  | NoSignalRows string
  | NoPriceData
  | NoUniverseFiles
  | ParquetWriteError

subsection \<open>Tables\<close>

type_synonym num = "real option"

record price_bar =
  symbol :: string
  date :: string
  "open" :: num
  high :: num
  low :: num
  close :: num
  adj_close :: num
  volume :: num

record bronze_price = price_bar +
  ingestion_date :: string

record bronze_universe =
  bu_symbol :: string
  bu_name :: string
  bu_sector :: string
  bu_subSector :: string
  bu_ingestion_date :: string

record silver_universe =
  su_symbol :: string
  company_name :: string
  sector :: string
  sub_sector :: string
  is_active :: bool

subsection \<open>Reading the raw store\<close>

text \<open>
  \<open>read_parquet\<close> over the glob \<open>ingestion_date=*.parquet\<close>: the raw store is the list of
  its files in the order of their names, one per ingestion batch; no file matching is an
  error of the engine, otherwise the rows of all files are unioned. This reader is for
  the universe files, whose columns are all text.
\<close>

definition read_parquet :: "'r list list \<Rightarrow> error + 'r list" where
  "read_parquet files = (if files = [] then Inl NoFilesMatch else Inr (concat files))"










subsection \<open>build_silver_price_daily\<close>

text \<open>\<open>ORDER BY key DESC\<close>, rows with equal keys kept in input order.\<close>

definition order_by_desc :: "('r \<Rightarrow> 'k::linorder) \<Rightarrow> 'r list \<Rightarrow> 'r list" where
  "order_by_desc key rows = rev (sort_key key (rev rows))"


definition price_key :: "'a price_bar_scheme \<Rightarrow> string \<times> string" where
  "price_key r = (symbol r, date r)"




subsection \<open>build_silver_universe\<close>

definition build_silver_universe :: "bronze_universe list list \<Rightarrow> error + silver_universe list" where
  "build_silver_universe files =
     (case read_parquet files of
        Inl e \<Rightarrow> Inl e
      | Inr rows \<Rightarrow>
          Inr (map (\<lambda>r. \<lparr>su_symbol = bu_symbol r, company_name = bu_name r,
                          sector = bu_sector r, sub_sector = bu_subSector r,
                          is_active = True\<rparr>) rows))"






definition raw_member :: "string \<Rightarrow> string \<Rightarrow> bronze_universe" where
  "raw_member s ing =
     \<lparr>bu_symbol = s, bu_name = s @ '' Corp'', bu_sector = ''Tech'', bu_subSector = ''Software'',
      bu_ingestion_date = ing\<rparr>"

definition sample_universe_files :: "bronze_universe list list" where
  "sample_universe_files =
     [[raw_member ''AAA'' ''2025-01-01'', raw_member ''BBB'' ''2025-01-01''],
      [raw_member ''AAA'' ''2025-01-02'']]"

subsection \<open>SQL expressions and aggregates over nullable numbers\<close>

fun non_null :: "'a option list \<Rightarrow> 'a list" where
  "non_null [] = []"
| "non_null (None # xs) = non_null xs"
| "non_null (Some x # xs) = x # non_null xs"

fun sql_sub :: "num \<Rightarrow> num \<Rightarrow> num" where
  "sql_sub (Some a) (Some b) = Some (a - b)"
| "sql_sub _ _ = None"

text \<open>
  Division: NULL exactly when an operand is NULL. For a zero divisor the engine gives an
  infinity or NaN, a value that is not NULL; the reals have neither, and the model has the
  quotient of the reals there, which is not NULL either. Only the guards of the query
  (\<open>NULLIF\<close>, \<open>CASE\<close>) turn a zero divisor into NULL.
\<close>

fun sql_div :: "num \<Rightarrow> num \<Rightarrow> num" where
  "sql_div (Some a) (Some b) = Some (a / b)"
| "sql_div _ _ = None"

definition sql_nullif :: "num \<Rightarrow> real \<Rightarrow> num" where
  "sql_nullif a v = (if a = Some v then None else a)"

fun sql_gt :: "num \<Rightarrow> num \<Rightarrow> bool option" where
  "sql_gt (Some a) (Some b) = Some (b < a)"
| "sql_gt _ _ = None"

fun sql_ge :: "num \<Rightarrow> num \<Rightarrow> bool option" where
  "sql_ge (Some a) (Some b) = Some (b \<le> a)"
| "sql_ge _ _ = None"

fun sql_le :: "num \<Rightarrow> num \<Rightarrow> bool option" where
  "sql_le (Some a) (Some b) = Some (a \<le> b)"
| "sql_le _ _ = None"

text \<open>Aggregates skip NULLs and are NULL over no value.\<close>

definition sql_avg :: "num list \<Rightarrow> num" where
  "sql_avg xs =
     (let ys = non_null xs
      in if ys = [] then None else Some (sum_list ys / real (length ys)))"

definition sql_stddev_pop :: "num list \<Rightarrow> num" where
  "sql_stddev_pop xs =
     (let ys = non_null xs
      in if ys = [] then None
         else let m = sum_list ys / real (length ys)
              in Some (sqrt (sum_list (map (\<lambda>y. (y - m)\<^sup>2) ys) / real (length ys))))"

text \<open>MEDIAN is the interpolated 0.5 quantile: the middle value, or the mean of the two.\<close>

definition sql_median :: "num list \<Rightarrow> num" where
  "sql_median xs =
     (let ys = sort (non_null xs); n = length ys
      in if n = 0 then None
         else if odd n then Some (ys ! (n div 2))
         else Some ((ys ! (n div 2 - 1) + ys ! (n div 2)) / 2))"

definition sql_max :: "num list \<Rightarrow> num" where
  "sql_max xs = (case non_null xs of [] \<Rightarrow> None | y # ys \<Rightarrow> Some (fold max ys y))"

definition sql_min :: "num list \<Rightarrow> num" where
  "sql_min xs = (case non_null xs of [] \<Rightarrow> None | y # ys \<Rightarrow> Some (fold min ys y))"

subsection \<open>Window functions\<close>

text \<open>
  \<open>PARTITION BY symbol ORDER BY date\<close>: one list per symbol, ordered by date.
\<close>

definition partition_by_symbol :: "'a price_bar_scheme list \<Rightarrow> 'a price_bar_scheme list list" where
  "partition_by_symbol rows =
     map (\<lambda>s. sort_key date (filter (\<lambda>r. symbol r = s) rows)) (remdups (map symbol rows))"

text \<open>
  \<open>ROWS BETWEEN lo PRECEDING AND hi PRECEDING\<close> for the row at position \<open>i\<close> (from 0) of
  its ordered partition: the rows at positions \<open>i - lo\<close> to \<open>i - hi\<close>, cut at the start of
  the partition; \<open>CURRENT ROW\<close> is \<open>hi = 0\<close>.
\<close>

definition window_frame :: "nat \<Rightarrow> nat \<Rightarrow> 'r list \<Rightarrow> nat \<Rightarrow> 'r list" where
  "window_frame lo hi part i = (if i < hi then [] else drop (i - lo) (take (Suc (i - hi)) part))"

text \<open>\<open>LAG(x)\<close>: the value at the previous row of the partition, NULL at its first row.\<close>

definition lag :: "'v option list \<Rightarrow> nat \<Rightarrow> 'v option" where
  "lag vals i = (if i = 0 then None else vals ! (i - 1))"

subsection \<open>compute_signals: the query\<close>

record config =
  cfg_run_date :: "string option"
  cfg_min_abs_ret_z :: real
  cfg_min_rvol :: real

text \<open>
  The rows of the CTE \<open>base\<close>: the columns of the price row and the window columns. The
  rows of \<open>returns\<close> add \<open>ret_1d\<close>, the rows of the final SELECT add its computed columns
  (that SELECT renames date, close, open, high, low and volume to run_date, close_d1,
  open_d1, high_d1, low_d1 and volume_d1), and the data frame adds the flags and the score.
\<close>

record base_row = price_bar +
  close_d2 :: num
  volume_d2 :: num
  sma_50 :: num
  sma_200 :: num
  close_60d_mean :: num
  close_60d_std :: num
  vol_60d_median :: num
  high_252d_max :: num
  low_252d_min :: num

record returns_row = base_row +
  ret_1d :: num

record query_row = returns_row +
  z_ret_1d :: num
  rvol_60 :: num
  is_52w_high :: "bool option"
  is_52w_low :: "bool option"
  above_200_prev :: "bool option"
  above_200_curr :: "bool option"

record signal_row = query_row +
  flag_200d_cross_up :: bool
  flag_200d_cross_down :: bool
  flag_large_move :: bool
  flag_high_rvol :: bool
  flag_52w_high :: bool
  flag_52w_low :: bool
  event_flag_count :: nat
  interestingness_score :: real

text \<open>\<open>FROM silver_price_daily p JOIN silver_universe u ON p.symbol = u.symbol WHERE u.is_active\<close>\<close>

definition join_universe :: "price_bar list \<Rightarrow> silver_universe list \<Rightarrow> price_bar list" where
  "join_universe prices uni =
     concat (map (\<lambda>p. map (\<lambda>u. p) (filter (\<lambda>u. symbol p = su_symbol u \<and> is_active u) uni))
                 prices)"

definition base_at :: "price_bar list \<Rightarrow> nat \<Rightarrow> base_row" where
  "base_at part i =
     price_bar.extend (part ! i)
       (base_row.fields
          (lag (map close part) i)
          (lag (map volume part) i)
          (sql_avg (map close (window_frame 49 0 part i)))
          (sql_avg (map close (window_frame 199 0 part i)))
          (sql_avg (map close (window_frame 59 1 part i)))
          (sql_stddev_pop (map close (window_frame 59 1 part i)))
          (sql_median (map volume (window_frame 59 1 part i)))
          (sql_max (map high (window_frame 251 1 part i)))
          (sql_min (map low (window_frame 251 1 part i))))"

definition base :: "price_bar list \<Rightarrow> base_row list" where
  "base joined =
     concat (map (\<lambda>part. map (base_at part) [0..<length part]) (partition_by_symbol joined))"

definition returns_of :: "base_row \<Rightarrow> returns_row" where
  "returns_of b =
     base_row.extend b
       (returns_row.fields (sql_div (sql_sub (close b) (close_d2 b)) (sql_nullif (close_d2 b) 0)))"

text \<open>
  The final SELECT. Its \<open>WHERE date = run_date\<close> is applied before its window function,
  so the \<open>LAG\<close> of \<open>close > sma_200\<close> ranges over the rows of the run date only.
\<close>

definition final_at :: "returns_row list \<Rightarrow> nat \<Rightarrow> query_row" where
  "final_at part i =
     (let r = part ! i
      in returns_row.extend r
           (query_row.fields
              (if close_60d_std r = None \<or> close_60d_std r = Some 0 then None
               else sql_div (sql_sub (close r) (close_60d_mean r)) (close_60d_std r))
              (if vol_60d_median r = None \<or> vol_60d_median r = Some 0 then None
               else sql_div (volume r) (vol_60d_median r))
              (sql_ge (high r) (high_252d_max r))
              (sql_le (low r) (low_252d_min r))
              (lag (map (\<lambda>x. sql_gt (close x) (sma_200 x)) part) i)
              (sql_gt (close r) (sma_200 r))))"

definition signals_query :: "string \<Rightarrow> price_bar list \<Rightarrow> silver_universe list \<Rightarrow> query_row list" where
  "signals_query rd prices uni =
     (let returns = map returns_of (base (join_universe prices uni));
          selected = filter (\<lambda>r. date r = rd) returns
      in concat (map (\<lambda>part. map (final_at part) [0..<length part])
                     (partition_by_symbol selected)))"

subsection \<open>compute_signals: flags, score, ranking\<close>

definition abs_ge :: "num \<Rightarrow> real \<Rightarrow> bool" where
  "abs_ge z t = (case z of None \<Rightarrow> False | Some v \<Rightarrow> t \<le> \<bar>v\<bar>)"

definition num_ge :: "num \<Rightarrow> real \<Rightarrow> bool" where
  "num_ge x t = (case x of None \<Rightarrow> False | Some v \<Rightarrow> t \<le> v)"

text \<open>\<open>.abs().clip(upper=c).fillna(0)\<close> and \<open>.clip(upper=c).fillna(0)\<close>\<close>

definition abs_clip_fill :: "num \<Rightarrow> real \<Rightarrow> real" where
  "abs_clip_fill z c = (case z of None \<Rightarrow> 0 | Some v \<Rightarrow> min \<bar>v\<bar> c)"

definition clip_fill :: "num \<Rightarrow> real \<Rightarrow> real" where
  "clip_fill x c = (case x of None \<Rightarrow> 0 | Some v \<Rightarrow> min v c)"

definition add_flags :: "config \<Rightarrow> query_row \<Rightarrow> signal_row" where
  "add_flags cfg q =
     (let cross_up = (above_200_prev q = Some False \<and> above_200_curr q = Some True);
          cross_down = (above_200_prev q = Some True \<and> above_200_curr q = Some False);
          large_move = abs_ge (z_ret_1d q) (cfg_min_abs_ret_z cfg);
          high_rvol = num_ge (rvol_60 q) (cfg_min_rvol cfg);
          f52_high = (is_52w_high q = Some True \<and> high_rvol);
          f52_low = (is_52w_low q = Some True \<and> high_rvol);
          cnt = sum_list (map of_bool [large_move, high_rvol, f52_high, f52_low, cross_up, cross_down])
      in query_row.extend q
           (signal_row.fields cross_up cross_down large_move high_rvol f52_high f52_low cnt
              (0.5 * abs_clip_fill (z_ret_1d q) 4 + 0.3 * clip_fill (rvol_60 q) 5
                 + 0.2 * real cnt)))"

text \<open>\<open>sort_values(score, ascending=False)\<close>, then \<open>drop_duplicates(keep="first")\<close>.\<close>

definition sort_by_score_desc :: "signal_row list \<Rightarrow> signal_row list" where
  "sort_by_score_desc rows = order_by_desc interestingness_score rows"

fun drop_duplicates :: "('r \<Rightarrow> 'k) \<Rightarrow> 'k list \<Rightarrow> 'r list \<Rightarrow> 'r list" where
  "drop_duplicates key seen [] = []"
| "drop_duplicates key seen (x # xs) =
     (if key x \<in> set seen then drop_duplicates key seen xs
      else x # drop_duplicates key (key x # seen) xs)"

text \<open>\<open>if cfg.run_date:\<close> holds for a string that is not empty.\<close>

definition resolve_run_date :: "config \<Rightarrow> price_bar list \<Rightarrow> error + string" where
  "resolve_run_date cfg prices =
     (case cfg_run_date cfg of
        Some (c # cs) \<Rightarrow> Inr (c # cs)
      | _ \<Rightarrow> (case map date prices of
                [] \<Rightarrow> Inl SilverPriceEmpty
              | d # ds \<Rightarrow> Inr (fold max ds d)))"

definition compute_signals ::
  "config \<Rightarrow> string option \<Rightarrow> price_bar list \<Rightarrow> silver_universe list \<Rightarrow> error + signal_row list" where
  "compute_signals cfg run_date prices uni =
     (case (case run_date of None \<Rightarrow> resolve_run_date cfg prices | Some rd \<Rightarrow> Inr rd) of
        Inl e \<Rightarrow> Inl e
      | Inr rd \<Rightarrow>
          (let df = signals_query rd prices uni
           in if df = [] then Inl (NoSignalRows rd)
              else Inr (drop_duplicates price_key []
                          (sort_by_score_desc (map (add_flags cfg) df)))))"

subsection \<open>Sample curated tables\<close>

definition bar :: "string \<Rightarrow> string \<Rightarrow> real \<Rightarrow> real \<Rightarrow> price_bar" where
  "bar s d c v =
     \<lparr>symbol = s, date = d, open = Some c, high = Some (c + 1), low = Some (c - 1),
      close = Some c, adj_close = Some c, volume = Some v\<rparr>"

definition member :: "string \<Rightarrow> silver_universe" where
  "member s =
     \<lparr>su_symbol = s, company_name = s @ '' Corp'', sector = ''Tech'', sub_sector = ''Software'',
      is_active = True\<rparr>"

text \<open>The configuration of the test suite: no run_date, both thresholds 2.0.\<close>

definition test_config :: config where
  "test_config = \<lparr>cfg_run_date = None, cfg_min_abs_ret_z = 2, cfg_min_rvol = 2\<rparr>"

definition cross_prices :: "price_bar list" where
  "cross_prices = [bar ''AAA'' ''2025-01-01'' 10 1000, bar ''AAA'' ''2025-01-02'' 20 1000]"

definition jump_prices :: "price_bar list" where
  "jump_prices =
     [bar ''AAA'' ''2025-01-01'' 1 100, bar ''AAA'' ''2025-01-02'' 3 100,
      bar ''AAA'' ''2025-01-03'' 9 300]"

definition halted_prices :: "price_bar list" where
  "halted_prices = [bar ''AAA'' ''2025-01-01'' 0 0, bar ''AAA'' ''2025-01-02'' 5 7]"

definition cross_down_prices :: "price_bar list" where
  "cross_down_prices =
     [bar ''AAA'' ''2025-01-01'' 10 1000, bar ''AAA'' ''2025-01-02'' 30 1000,
      bar ''AAA'' ''2025-01-03'' 5 1000]"

text \<open>
  A year of daily bars of one symbol: \<open>iso_date k\<close> is day \<open>k\<close> of 2025, counted from 0.
  The close is 10 and the volume 100 on every day but day 192 (close 1000, volume 9000);
  the high is 11 and the low 9 on every day but day 0 (high 5000, low 1).
\<close>

definition digit2 :: "nat \<Rightarrow> string" where
  "digit2 n = [''0123456789'' ! (n div 10), ''0123456789'' ! (n mod 10)]"

fun month_day :: "nat list \<Rightarrow> nat \<Rightarrow> nat \<Rightarrow> nat \<times> nat" where
  "month_day [] m k = (m, Suc k)"
| "month_day (l # ls) m k = (if k < l then (m, Suc k) else month_day ls (Suc m) (k - l))"

definition iso_date :: "nat \<Rightarrow> string" where
  "iso_date k =
     (case month_day [31, 28, 31, 30, 31, 30, 31, 31, 30, 31, 30, 31] 1 k of
        (m, d) \<Rightarrow> ''2025-'' @ digit2 m @ ''-'' @ digit2 d)"

definition year_bar :: "nat \<Rightarrow> price_bar" where
  "year_bar k =
     (bar ''AAA'' (iso_date k) (if k = 192 then 1000 else 10) (if k = 192 then 9000 else 100))
       \<lparr>high := Some (if k = 0 then 5000 else 11), low := Some (if k = 0 then 1 else 9)\<rparr>"

definition year_prices :: "price_bar list" where
  "year_prices = map year_bar [0..<253]"

subsection \<open>ingest_prices\<close>

text \<open>
  A reply of the data API is an object wrapping a list of price records under "historical"
  (the key may be absent), a bare list of price records, or something else. A price record
  is a JSON object with scalar values. Calls of the client and of the per-symbol fetch
  either raise or return.
\<close>

datatype jval = JNull | JNum real | JStr string

type_synonym jobj = "(string \<times> jval) list"

datatype response = Wrapped "jobj list option" | Bare "jobj list" | Unexpected

datatype 'a outcome = Raised | Returned 'a

type_synonym client = "string \<Rightarrow> response outcome"

definition normalize_hist_response :: "response \<Rightarrow> jobj list option" where
  "normalize_hist_response resp =
     (case resp of
        Wrapped h \<Rightarrow>
          (let hist = (case h of None \<Rightarrow> [] | Some l \<Rightarrow> l)
           in if hist = [] then None else Some hist)
      | Bare hist \<Rightarrow> if hist = [] then None else Some hist
      | Unexpected \<Rightarrow> None)"

text \<open>
  A data frame: its columns and its rows, each row holding a value for every column (NaN,
  here \<open>JNull\<close>, where the record had no such key).
\<close>

record dataframe =
  df_columns :: "string list"
  df_rows :: "jobj list"

definition cell :: "jobj \<Rightarrow> string \<Rightarrow> jval" where
  "cell r c = (case map_of r c of None \<Rightarrow> JNull | Some v \<Rightarrow> v)"

definition DataFrame :: "jobj list \<Rightarrow> dataframe" where
  "DataFrame hist =
     (let cols = remdups (concat (map (map fst) hist))
      in \<lparr>df_columns = cols, df_rows = map (\<lambda>r. map (\<lambda>c. (c, cell r c)) cols) hist\<rparr>)"

definition rename_column :: "string \<Rightarrow> string \<Rightarrow> dataframe \<Rightarrow> dataframe" where
  "rename_column a b df =
     \<lparr>df_columns = map (\<lambda>c. if c = a then b else c) (df_columns df),
      df_rows = map (map (\<lambda>(c, v). (if c = a then b else c, v))) (df_rows df)\<rparr>"

text \<open>\<open>df[c] = values\<close>: the column is replaced, or added when new.\<close>

definition set_column :: "string \<Rightarrow> (jobj \<Rightarrow> jval) \<Rightarrow> dataframe \<Rightarrow> dataframe" where
  "set_column c f df =
     (let cols = (if c \<in> set (df_columns df) then df_columns df else df_columns df @ [c])
      in \<lparr>df_columns = cols,
          df_rows = map (\<lambda>r. map (\<lambda>k. (k, if k = c then f r else cell r k)) cols) (df_rows df)\<rparr>)"

definition select_columns :: "string list \<Rightarrow> dataframe \<Rightarrow> dataframe" where
  "select_columns cs df =
     \<lparr>df_columns = cs, df_rows = map (\<lambda>r. map (\<lambda>c. (c, cell r c)) cs) (df_rows df)\<rparr>"

definition required_cols :: "string list" where
  "required_cols =
     [''symbol'', ''date'', ''open'', ''high'', ''low'', ''close'', ''adj_close'', ''volume'']"

text \<open>
  \<open>_fetch_prices_for_symbol\<close>. The conversion \<open>pd.to_datetime(...).dt.date\<close> of one value
  is the parameter \<open>to_date\<close>, \<open>None\<close> where it raises. An exception of the client is
  caught and gives None; an exception of the date conversion leaves the function.
\<close>

definition fetch_prices_for_symbol ::
  "(jval \<Rightarrow> jval option) \<Rightarrow> string \<Rightarrow> client \<Rightarrow> jobj list option outcome" where
  "fetch_prices_for_symbol to_date symb cl =
     (case cl symb of
        Raised \<Rightarrow> Returned None
      | Returned raw \<Rightarrow>
          (case normalize_hist_response raw of
             None \<Rightarrow> Returned None
           | Some hist \<Rightarrow>
               (let df0 = DataFrame hist;
                    df1 = (if ''adjClose'' \<in> set (df_columns df0)
                              \<and> ''adj_close'' \<notin> set (df_columns df0)
                           then rename_column ''adjClose'' ''adj_close'' df0 else df0)
                in if ''adj_close'' \<notin> set (df_columns df1) \<and> ''close'' \<notin> set (df_columns df1)
                   then Returned None
                   else
                     (let df2 = (if ''adj_close'' \<notin> set (df_columns df1)
                                 then set_column ''adj_close'' (\<lambda>r. cell r ''close'') df1
                                 else df1)
                      in if ''date'' \<notin> set (df_columns df2) then Returned None
                         else
                           (let df3 = set_column ''symbol'' (\<lambda>r. JStr symb) df2
                            in if list_ex (\<lambda>r. to_date (cell r ''date'') = None) (df_rows df3)
                               then Raised
                               else
                                 (let df4 = set_column ''date''
                                       (\<lambda>r. case to_date (cell r ''date'') of
                                               None \<Rightarrow> JNull | Some d \<Rightarrow> d) df3
                                  in if list_ex (\<lambda>c. c \<notin> set (df_columns df4)) required_cols
                                     then Returned None
                                     else Returned
                                       (Some (df_rows (select_columns required_cols df4)))))))))"

text \<open>\<open>_load_latest_universe_parquet\<close>: the last of the snapshot files sorted by name.\<close>

definition load_latest_universe_parquet ::
  "(string \<times> bronze_universe list) list \<Rightarrow> error + bronze_universe list" where
  "load_latest_universe_parquet files =
     (case sort_key fst files of
        [] \<Rightarrow> Inl NoUniverseFiles
      | f # fs \<Rightarrow> Inr (snd (last (f # fs))))"

text \<open>
  The loop over the completed futures: \<open>future.result()\<close> with an exception giving None,
  and the frame appended when it is not None and not empty.
\<close>

definition future_result :: "(jval \<Rightarrow> jval option) \<Rightarrow> client \<Rightarrow> string \<Rightarrow> jobj list option" where
  "future_result to_date cl symb =
     (case fetch_prices_for_symbol to_date symb cl of Raised \<Rightarrow> None | Returned df \<Rightarrow> df)"

fun collect_frames :: "(jval \<Rightarrow> jval option) \<Rightarrow> client \<Rightarrow> string list \<Rightarrow> jobj list list" where
  "collect_frames to_date cl [] = []"
| "collect_frames to_date cl (symb # rest) =
     (case future_result to_date cl symb of
        Some (r # rs) \<Rightarrow> (r # rs) # collect_frames to_date cl rest
      | _ \<Rightarrow> collect_frames to_date cl rest)"

text \<open>
  \<open>to_parquet\<close> gives every column one type. A numeric column of the combined frame that
  holds both text and numbers cannot be converted, and the call raises; nothing in
  \<open>ingest_prices\<close> catches it.
\<close>

definition numeric_cols :: "string list" where
  "numeric_cols = [''open'', ''high'', ''low'', ''close'', ''adj_close'', ''volume'']"

definition is_text :: "jval \<Rightarrow> bool" where
  "is_text v = (case v of JStr s \<Rightarrow> True | _ \<Rightarrow> False)"

definition is_number :: "jval \<Rightarrow> bool" where
  "is_number v = (case v of JNum x \<Rightarrow> True | _ \<Rightarrow> False)"

definition writable :: "jobj list \<Rightarrow> bool" where
  "writable rows =
     (\<not> list_ex (\<lambda>c. list_ex (\<lambda>r. is_text (cell r c)) rows
                       \<and> list_ex (\<lambda>r. is_number (cell r c)) rows) numeric_cols)"

definition to_parquet :: "jobj list \<Rightarrow> error + jobj list" where
  "to_parquet rows = (if writable rows then Inr rows else Inl ParquetWriteError)"

text \<open>
  \<open>ingest_prices\<close>. The worker pool is its order of completion \<open>as_completed\<close>, which the
  scheduler chooses; \<open>today\<close> is the ingestion date. The result is the content of the
  batch file written.
\<close>

definition ingest_prices ::
  "(jval \<Rightarrow> jval option) \<Rightarrow> string \<Rightarrow> (string \<times> bronze_universe list) list \<Rightarrow> client
     \<Rightarrow> (string list \<Rightarrow> string list) \<Rightarrow> error + jobj list" where
  "ingest_prices to_date today uni_files cl as_completed =
     (case load_latest_universe_parquet uni_files of
        Inl e \<Rightarrow> Inl e
      | Inr uni_df \<Rightarrow>
          (let symbols = sort (remdups (map bu_symbol uni_df));
               frames = collect_frames to_date cl (as_completed symbols)
           in if frames = [] then Inl NoPriceData
              else to_parquet (map (\<lambda>r. r @ [(''ingestion_date'', JStr today)])
                                   (concat frames))))"

text \<open>A symbol produces usable data when its fetch returns a frame that is not empty.\<close>

definition usable :: "(jval \<Rightarrow> jval option) \<Rightarrow> client \<Rightarrow> string \<Rightarrow> bool" where
  "usable to_date cl symb =
     (case fetch_prices_for_symbol to_date symb cl of
        Returned (Some df) \<Rightarrow> df \<noteq> []
      | _ \<Rightarrow> False)"

text \<open>
  A sample run: a universe of AAA, BBB and CCC; the client returns a wrapped reply with
  adjClose for AAA, raises for BBB and returns a bare list without adjusted close for CCC.
  The sample date conversion keeps a 10-character text, maps a number to the epoch day and
  NaN to NaT, and raises on any other text.
\<close>

definition feed_client :: client where
  "feed_client s =
     (if s = ''AAA'' then Returned (Wrapped (Some
          [[(''date'', JStr ''2025-01-01''), (''open'', JNum 10), (''high'', JNum 11),
            (''low'', JNum 9), (''close'', JNum 10.5), (''adjClose'', JNum 10.5),
            (''volume'', JNum 1000)]]))
      else if s = ''BBB'' then Raised
      else if s = ''CCC'' then Returned (Bare
          [[(''date'', JStr ''2025-01-01''), (''open'', JNum 20), (''high'', JNum 21),
            (''low'', JNum 19), (''close'', JNum 20.5), (''volume'', JNum 2000)]])
      else Returned Unexpected)"

definition keep_date :: "jval \<Rightarrow> jval option" where
  "keep_date v =
     (case v of
        JStr s \<Rightarrow> if length s = 10 then Some (JStr s) else None
      | JNum n \<Rightarrow> Some (JStr ''1970-01-01'')
      | JNull \<Rightarrow> Some JNull)"

definition feed_universe :: "(string \<times> bronze_universe list) list" where
  "feed_universe =
     [(''ingestion_date=2025-01-01.parquet'',
       [raw_member ''AAA'' ''2025-01-01'', raw_member ''BBB'' ''2025-01-01'',
        raw_member ''CCC'' ''2025-01-01''])]"

text \<open>
  The same universe with a client whose reply for BBB has text in the close field.
\<close>

definition tainted_client :: client where
  "tainted_client s =
     (if s = ''BBB'' then Returned (Bare
          [[(''date'', JStr ''2025-01-01''), (''open'', JNum 30), (''high'', JNum 31),
            (''low'', JNum 29), (''close'', JStr ''n/a''), (''adjClose'', JNum 30),
            (''volume'', JNum 3000)]])
      else feed_client s)"

section \<open>Verified properties\<close>

subsection \<open>The curated price table keeps the latest ingestion of every bar\<close>



















subsection \<open>The curated universe table is the union of all snapshots\<close>

text \<open>
  C4. build_silver_universe at two snapshots, the older one holding AAA and BBB, the latest
  one AAA only: the curated table has three rows, two of them for AAA, and one for BBB, a
  symbol of the older snapshot only. The query selects from every file of the glob and has
  no filter on the ingestion key.
\<close>

theorem build_silver_universe_keeps_all_snapshots:
  "\<exists>u. build_silver_universe sample_universe_files = Inr u
     \<and> length u = 3
     \<and> length (filter (\<lambda>m. su_symbol m = ''AAA'') u) = 2
     \<and> length (filter (\<lambda>m. su_symbol m = ''BBB'') u) = 1"
  by (simp add: build_silver_universe_def read_parquet_def sample_universe_files_def
        raw_member_def)

subsection \<open>The rows compute_signals returns\<close>

lemma set_drop_duplicates: "set (drop_duplicates key seen xs) \<subseteq> set xs"
  by (induction xs arbitrary: seen) auto

lemma set_order_by_desc: "set (order_by_desc key xs) = set xs"
  by (simp add: order_by_desc_def)

lemma partition_member:
  assumes "part \<in> set (partition_by_symbol rows)" and "i < length part"
  shows "part ! i \<in> set rows"
proof -
  from assms(1) obtain s where "part = sort_key date (filter (\<lambda>r. symbol r = s) rows)"
    by (auto simp: partition_by_symbol_def)
  then have "set part \<subseteq> set rows" by auto
  then show ?thesis using assms(2) nth_mem by blast
qed

lemma signals_query_rows:
  assumes "q \<in> set (signals_query rd prices uni)"
  shows "\<exists>part i b. i < length part \<and> q = final_at part i \<and> part ! i = returns_of b"
proof -
  let ?sel = "filter (\<lambda>r. date r = rd) (map returns_of (base (join_universe prices uni)))"
  from assms obtain part i where p: "part \<in> set (partition_by_symbol ?sel)"
    and i: "i < length part" and q: "q = final_at part i"
    by (auto simp: signals_query_def Let_def)
  from partition_member [OF p i] have "part ! i \<in> set ?sel" .
  then obtain b where "part ! i = returns_of b" by auto
  then show ?thesis using i q by blast
qed

lemma compute_signals_rows:
  assumes "compute_signals cfg run_date prices uni = Inr rows" and "r \<in> set rows"
  shows "\<exists>rd q. q \<in> set (signals_query rd prices uni) \<and> r = add_flags cfg q"
proof -
  from assms(1) obtain rd where
    rows: "rows = drop_duplicates price_key []
                    (sort_by_score_desc (map (add_flags cfg) (signals_query rd prices uni)))"
    by (auto simp: compute_signals_def Let_def split: sum.splits if_splits)
  have "set rows \<subseteq> set (map (add_flags cfg) (signals_query rd prices uni))"
    unfolding rows sort_by_score_desc_def
    using set_drop_duplicates set_order_by_desc by (metis)
  then show ?thesis using assms(2) by (simp only: set_map) blast
qed

lemmas row_ext_defs =
  price_bar.extend_def base_row.extend_def returns_row.extend_def query_row.extend_def
  base_row.fields_def returns_row.fields_def query_row.fields_def signal_row.fields_def

lemma add_flags_query_cols:
  "z_ret_1d (add_flags cfg q) = z_ret_1d q" "rvol_60 (add_flags cfg q) = rvol_60 q"
  "ret_1d (add_flags cfg q) = ret_1d q" "close_d2 (add_flags cfg q) = close_d2 q"
  "close_60d_std (add_flags cfg q) = close_60d_std q"
  "vol_60d_median (add_flags cfg q) = vol_60d_median q"
  by (simp_all add: add_flags_def Let_def row_ext_defs)

lemma final_at_cols:
  "ret_1d (final_at part i) = ret_1d (part ! i)"
  "close_d2 (final_at part i) = close_d2 (part ! i)"
  "close_60d_std (final_at part i) = close_60d_std (part ! i)"
  "vol_60d_median (final_at part i) = vol_60d_median (part ! i)"
  by (simp_all add: final_at_def Let_def row_ext_defs)

lemma final_at_guards:
  "close_60d_std (part ! i) = None \<or> close_60d_std (part ! i) = Some 0
     \<Longrightarrow> z_ret_1d (final_at part i) = None"
  "vol_60d_median (part ! i) = None \<or> vol_60d_median (part ! i) = Some 0
     \<Longrightarrow> rvol_60 (final_at part i) = None"
  by (auto simp add: final_at_def Let_def row_ext_defs)

lemma returns_of_guard:
  "close_d2 (returns_of b) = close_d2 b"
  "close_d2 b = None \<or> close_d2 b = Some 0 \<Longrightarrow> ret_1d (returns_of b) = None"
  by (auto simp add: returns_of_def sql_nullif_def row_ext_defs)

lemmas sig_defs = compute_signals_def resolve_run_date_def signals_query_def base_def base_at_def
  returns_of_def final_at_def add_flags_def join_universe_def partition_by_symbol_def
  window_frame_def lag_def sql_avg_def sql_stddev_pop_def sql_median_def sql_max_def sql_min_def
  sql_nullif_def sort_by_score_desc_def order_by_desc_def price_key_def
  abs_ge_def num_ge_def abs_clip_fill_def clip_fill_def row_ext_defs
  bar_def member_def test_config_def

lemma jump_run:
  "\<exists>r. compute_signals test_config None jump_prices [member ''AAA''] = Inr [r]
     \<and> z_ret_1d r = Some 7 \<and> rvol_60 r = Some 3 \<and> event_flag_count r = 3
     \<and> flag_large_move r \<and> flag_high_rvol r \<and> flag_52w_high r \<and> \<not> flag_52w_low r
     \<and> \<not> flag_200d_cross_up r \<and> \<not> flag_200d_cross_down r
     \<and> interestingness_score r = 7 / 2"
  by (simp add: sig_defs jump_prices_def Let_def)

lemma halted_run:
  "\<exists>r. compute_signals test_config None halted_prices [member ''AAA''] = Inr [r]
     \<and> close_d2 r = Some 0 \<and> close_60d_std r = Some 0 \<and> vol_60d_median r = Some 0
     \<and> ret_1d r = None \<and> z_ret_1d r = None \<and> rvol_60 r = None"
  by (simp add: sig_defs halted_prices_def Let_def)

lemma sum_of_bool_count: "sum_list (map of_bool bs) = length (filter (\<lambda>b. b) bs)"
  by (induction bs) auto

lemma add_flags_count:
  "event_flag_count (add_flags cfg q) =
     length (filter (\<lambda>b. b)
       [flag_large_move (add_flags cfg q), flag_high_rvol (add_flags cfg q),
        flag_52w_high (add_flags cfg q), flag_52w_low (add_flags cfg q),
        flag_200d_cross_up (add_flags cfg q), flag_200d_cross_down (add_flags cfg q)])"
proof -
  have "event_flag_count (add_flags cfg q) =
      sum_list (map of_bool
       [flag_large_move (add_flags cfg q), flag_high_rvol (add_flags cfg q),
        flag_52w_high (add_flags cfg q), flag_52w_low (add_flags cfg q),
        flag_200d_cross_up (add_flags cfg q), flag_200d_cross_down (add_flags cfg q)])"
    by (simp add: add_flags_def Let_def row_ext_defs)
  then show ?thesis by (simp only: sum_of_bool_count)
qed

lemma add_flags_score:
  "interestingness_score (add_flags cfg q) =
     0.5 * (case z_ret_1d (add_flags cfg q) of None \<Rightarrow> 0 | Some z \<Rightarrow> min \<bar>z\<bar> 4)
   + 0.3 * (case rvol_60 (add_flags cfg q) of None \<Rightarrow> 0 | Some v \<Rightarrow> min v 5)
   + 0.2 * real (event_flag_count (add_flags cfg q))"
  by (simp add: add_flags_def Let_def row_ext_defs abs_clip_fill_def clip_fill_def)

lemma count_le_6: "event_flag_count (add_flags cfg q) \<le> 6"
proof -
  have "length (filter (\<lambda>b. b)
       [flag_large_move (add_flags cfg q), flag_high_rvol (add_flags cfg q),
        flag_52w_high (add_flags cfg q), flag_52w_low (add_flags cfg q),
        flag_200d_cross_up (add_flags cfg q), flag_200d_cross_down (add_flags cfg q)]) \<le> 6"
    by (rule order_trans [OF length_filter_le]) simp
  then show ?thesis by (simp only: add_flags_count)
qed

lemma score_le: "interestingness_score (add_flags cfg q) \<le> 47 / 10"
proof -
  let ?r = "add_flags cfg q"
  have a: "(case z_ret_1d ?r of None \<Rightarrow> 0 | Some z \<Rightarrow> min \<bar>z\<bar> 4) \<le> (4::real)"
    by (simp split: option.split)
  have b: "(case rvol_60 ?r of None \<Rightarrow> 0 | Some v \<Rightarrow> min v 5) \<le> (5::real)"
    by (simp split: option.split)
  have c: "real (event_flag_count ?r) \<le> 6" using count_le_6 [of cfg q] by simp
  show ?thesis unfolding add_flags_score using a b c by linarith
qed

subsection \<open>Guarded ratios\<close>

text \<open>A division is NULL only through a NULL operand, so a zero divisor needs its guard.\<close>

lemma sql_div_not_null: "sql_div (Some a) (Some b) \<noteq> None"
  by simp

text \<open>
  C5. When compute_signals returns, it returns rows (no division error), and on each of them
  ret_1d is NULL when close_d2, the previous close, is NULL or zero; z_ret_1d is NULL when
  close_60d_std, the trailing standard deviation, is NULL or zero; rvol_60 is NULL when
  vol_60d_median, the trailing median volume, is NULL or zero.
\<close>

theorem guarded_ratios_null:
  assumes "compute_signals cfg run_date prices uni = Inr rows" and "r \<in> set rows"
  shows "(close_d2 r = None \<or> close_d2 r = Some 0 \<longrightarrow> ret_1d r = None)
       \<and> (close_60d_std r = None \<or> close_60d_std r = Some 0 \<longrightarrow> z_ret_1d r = None)
       \<and> (vol_60d_median r = None \<or> vol_60d_median r = Some 0 \<longrightarrow> rvol_60 r = None)"
proof -
  from compute_signals_rows [OF assms] obtain rd q
    where q: "q \<in> set (signals_query rd prices uni)" and r: "r = add_flags cfg q" by blast
  from signals_query_rows [OF q] obtain part i b
    where i: "i < length part" and qf: "q = final_at part i" and b: "part ! i = returns_of b"
    by blast
  have 1: "close_d2 r = None \<or> close_d2 r = Some 0 \<longrightarrow> ret_1d r = None"
    using returns_of_guard [of b] by (simp add: r qf add_flags_query_cols final_at_cols b)
  have 2: "close_60d_std r = None \<or> close_60d_std r = Some 0 \<longrightarrow> z_ret_1d r = None"
    using final_at_guards(1) [of part i] by (simp add: r qf add_flags_query_cols final_at_cols)
  have 3: "vol_60d_median r = None \<or> vol_60d_median r = Some 0 \<longrightarrow> rvol_60 r = None"
    using final_at_guards(2) [of part i] by (simp add: r qf add_flags_query_cols final_at_cols)
  show ?thesis using 1 2 3 by blast
qed

text \<open>
  The theorem at a symbol whose first bar has close 0 and volume 0: on the second bar the
  previous close, the trailing deviation and the trailing median are all zero.
\<close>

theorem guarded_ratios_null_witness:
  "\<exists>rows r. compute_signals test_config None halted_prices [member ''AAA''] = Inr rows
     \<and> r \<in> set rows
     \<and> close_d2 r = Some 0 \<and> ret_1d r = None
     \<and> close_60d_std r = Some 0 \<and> z_ret_1d r = None
     \<and> vol_60d_median r = Some 0 \<and> rvol_60 r = None"
proof -
  from halted_run obtain r
    where e: "compute_signals test_config None halted_prices [member ''AAA''] = Inr [r]"
      and z: "close_d2 r = Some 0" "close_60d_std r = Some 0" "vol_60d_median r = Some 0"
    by blast
  have m: "r \<in> set [r]" by simp
  from guarded_ratios_null [OF e m] z
  have "ret_1d r = None \<and> z_ret_1d r = None \<and> rvol_60 r = None" by simp
  then show ?thesis using e m z by blast
qed

subsection \<open>Event count and score\<close>

text \<open>
  C6. On every row compute_signals returns, interestingness_score is
  0.5 * min(|z_ret_1d|, 4) + 0.3 * min(rvol_60, 5) + 0.2 * event_flag_count, a NULL
  z_ret_1d or rvol_60 giving 0 for its term.
\<close>

theorem score_formula:
  assumes "compute_signals cfg run_date prices uni = Inr rows" and "r \<in> set rows"
  shows "interestingness_score r =
           0.5 * (case z_ret_1d r of None \<Rightarrow> 0 | Some z \<Rightarrow> min \<bar>z\<bar> 4)
         + 0.3 * (case rvol_60 r of None \<Rightarrow> 0 | Some v \<Rightarrow> min v 5)
         + 0.2 * real (event_flag_count r)"
proof -
  from compute_signals_rows [OF assms] obtain rd q where "r = add_flags cfg q" by blast
  then show ?thesis by (simp only: add_flags_score)
qed

theorem score_formula_witness:
  "\<exists>rows r. compute_signals test_config None jump_prices [member ''AAA''] = Inr rows
     \<and> r \<in> set rows \<and> z_ret_1d r = Some 7 \<and> rvol_60 r = Some 3 \<and> event_flag_count r = 3
     \<and> interestingness_score r = 0.5 * 4 + 0.3 * 3 + 0.2 * 3"
proof -
  from jump_run obtain r
    where e: "compute_signals test_config None jump_prices [member ''AAA''] = Inr [r]"
      and v: "z_ret_1d r = Some 7" "rvol_60 r = Some 3" "event_flag_count r = 3"
    by blast
  have m: "r \<in> set [r]" by simp
  from score_formula [OF e m] v
  have "interestingness_score r = 0.5 * 4 + 0.3 * 3 + 0.2 * 3" by simp
  then show ?thesis using e m v by blast
qed

text \<open>
  C7. On every row compute_signals returns, event_flag_count is the number of true flags
  among flag_large_move, flag_high_rvol, flag_52w_high, flag_52w_low, flag_200d_cross_up
  and flag_200d_cross_down.
\<close>

theorem event_flag_count_exact:
  assumes "compute_signals cfg run_date prices uni = Inr rows" and "r \<in> set rows"
  shows "event_flag_count r =
           length (filter (\<lambda>flag. flag)
             [flag_large_move r, flag_high_rvol r, flag_52w_high r, flag_52w_low r,
              flag_200d_cross_up r, flag_200d_cross_down r])"
proof -
  from compute_signals_rows [OF assms] obtain rd q where "r = add_flags cfg q" by blast
  then show ?thesis by (simp only: add_flags_count)
qed

theorem event_flag_count_exact_witness:
  "\<exists>rows r. compute_signals test_config None jump_prices [member ''AAA''] = Inr rows
     \<and> r \<in> set rows
     \<and> flag_large_move r \<and> flag_high_rvol r \<and> flag_52w_high r \<and> \<not> flag_52w_low r
     \<and> \<not> flag_200d_cross_up r \<and> \<not> flag_200d_cross_down r
     \<and> event_flag_count r = length (filter (\<lambda>flag. flag) [True, True, True, False, False, False])"
proof -
  from jump_run obtain r
    where e: "compute_signals test_config None jump_prices [member ''AAA''] = Inr [r]"
      and f: "flag_large_move r" "flag_high_rvol r" "flag_52w_high r" "\<not> flag_52w_low r"
        "\<not> flag_200d_cross_up r" "\<not> flag_200d_cross_down r"
    by blast
  have m: "r \<in> set [r]" by simp
  have "event_flag_count r = length (filter (\<lambda>flag. flag) [True, True, True, False, False, False])"
    using event_flag_count_exact [OF e m] f by simp
  then show ?thesis using e m f by blast
qed

text \<open>
  C10. On every row compute_signals returns, interestingness_score is at most 4.7: the
  z-score term is at most 0.5 * 4, the relative-volume term at most 0.3 * 5, and
  event_flag_count is at most 6.
\<close>

theorem score_at_most_4_7:
  assumes "compute_signals cfg run_date prices uni = Inr rows" and "r \<in> set rows"
  shows "interestingness_score r \<le> 4.7 \<and> event_flag_count r \<le> 6"
proof -
  from compute_signals_rows [OF assms] obtain rd q where r: "r = add_flags cfg q" by blast
  have "interestingness_score r \<le> 47 / 10" unfolding r by (rule score_le)
  moreover have "event_flag_count r \<le> 6" unfolding r by (rule count_le_6)
  ultimately show ?thesis by simp
qed

theorem score_at_most_4_7_witness:
  "\<exists>rows r. compute_signals test_config None jump_prices [member ''AAA''] = Inr rows
     \<and> r \<in> set rows \<and> interestingness_score r = 3.5 \<and> interestingness_score r \<le> 4.7
     \<and> event_flag_count r \<le> 6"
proof -
  from jump_run obtain r
    where e: "compute_signals test_config None jump_prices [member ''AAA''] = Inr [r]"
      and s: "interestingness_score r = 7 / 2"
    by blast
  have m: "r \<in> set [r]" by simp
  from score_at_most_4_7 [OF e m] s e m show ?thesis by auto
qed

subsection \<open>No rows for the run date\<close>

lemma join_universe_subset: "set (join_universe prices uni) \<subseteq> set prices"
  by (auto simp: join_universe_def)

lemma base_at_date: "date (base_at part i) = date (part ! i)"
  by (simp add: base_at_def price_bar.extend_def)

lemma returns_of_date: "date (returns_of b) = date b"
  by (simp add: returns_of_def base_row.extend_def)

lemma base_dates:
  assumes "b \<in> set (base joined)"
  shows "date b \<in> date ` set joined"
proof -
  from assms obtain part i where p: "part \<in> set (partition_by_symbol joined)"
    and i: "i < length part" and b: "b = base_at part i"
    by (auto simp: base_def)
  from partition_member [OF p i] have "part ! i \<in> set joined" .
  then show ?thesis unfolding b base_at_date by (rule imageI)
qed

lemma partition_by_symbol_Nil: "partition_by_symbol [] = []"
  by (simp add: partition_by_symbol_def)

lemma signals_query_no_date:
  assumes "\<forall>p\<in>set prices. date p \<noteq> rd"
  shows "signals_query rd prices uni = []"
proof -
  have "filter (\<lambda>r. date r = rd) (map returns_of (base (join_universe prices uni))) = []"
  proof -
    have "\<forall>b\<in>set (base (join_universe prices uni)). date b \<noteq> rd"
    proof
      fix b assume "b \<in> set (base (join_universe prices uni))"
      from base_dates [OF this] obtain p
        where "p \<in> set (join_universe prices uni)" and e: "date b = date p" by auto
      then have "p \<in> set prices" using join_universe_subset by blast
      then show "date b \<noteq> rd" using assms e by simp
    qed
    then show ?thesis by (simp add: filter_empty_conv returns_of_date)
  qed
  then show ?thesis by (simp add: signals_query_def partition_by_symbol_Nil)
qed

lemma drop_duplicates_Nil: "drop_duplicates key seen xs = [] \<Longrightarrow> \<forall>x\<in>set xs. key x \<in> set seen"
  by (induction xs arbitrary: seen) (auto split: if_splits)

lemma compute_signals_nonempty: "compute_signals cfg run_date prices uni \<noteq> Inr []"
proof
  assume a: "compute_signals cfg run_date prices uni = Inr []"
  then obtain rd where ne: "signals_query rd prices uni \<noteq> []"
    and d: "drop_duplicates price_key []
              (sort_by_score_desc (map (add_flags cfg) (signals_query rd prices uni))) = []"
    by (auto simp: compute_signals_def Let_def split: sum.splits if_splits)
  from drop_duplicates_Nil [OF d]
  have "set (sort_by_score_desc (map (add_flags cfg) (signals_query rd prices uni))) = {}"
    by auto
  then have "signals_query rd prices uni = []"
    by (simp add: sort_by_score_desc_def set_order_by_desc)
  then show False using ne by simp
qed

text \<open>
  C8. With the run date resolved to \<open>rd\<close> (the argument, or resolve_run_date on the
  configuration and the table) and no row of the curated price table dated \<open>rd\<close>,
  compute_signals raises "No signals rows"; it never returns an empty frame; and with no
  run_date configured (absent or the empty string) and an empty curated price table,
  resolve_run_date raises, and so does compute_signals called without a run date.
\<close>

theorem compute_signals_raises:
  "((case run_date of None \<Rightarrow> resolve_run_date cfg prices | Some d \<Rightarrow> Inr d) = Inr rd
      \<and> (\<forall>p\<in>set prices. date p \<noteq> rd)
      \<longrightarrow> compute_signals cfg run_date prices uni = Inl (NoSignalRows rd))
   \<and> compute_signals cfg run_date prices uni \<noteq> Inr []
   \<and> (cfg_run_date cfg = None \<or> cfg_run_date cfg = Some ''''
      \<longrightarrow> resolve_run_date cfg [] = Inl SilverPriceEmpty
        \<and> compute_signals cfg None [] uni = Inl SilverPriceEmpty)"
proof -
  have 1: "(case run_date of None \<Rightarrow> resolve_run_date cfg prices | Some d \<Rightarrow> Inr d) = Inr rd
      \<and> (\<forall>p\<in>set prices. date p \<noteq> rd)
      \<longrightarrow> compute_signals cfg run_date prices uni = Inl (NoSignalRows rd)"
    using signals_query_no_date [of prices rd uni] by (simp add: compute_signals_def)
  have 3: "cfg_run_date cfg = None \<or> cfg_run_date cfg = Some ''''
      \<longrightarrow> resolve_run_date cfg [] = Inl SilverPriceEmpty
        \<and> compute_signals cfg None [] uni = Inl SilverPriceEmpty"
    by (auto simp: compute_signals_def resolve_run_date_def)
  show ?thesis using 1 compute_signals_nonempty 3 by blast
qed

theorem compute_signals_raises_witness:
  "compute_signals test_config (Some ''2025-01-04'') jump_prices [member ''AAA'']
     = Inl (NoSignalRows ''2025-01-04'')
   \<and> cfg_run_date test_config = None
   \<and> resolve_run_date test_config [] = Inl SilverPriceEmpty
   \<and> compute_signals test_config None [] [member ''AAA''] = Inl SilverPriceEmpty"
proof -
  have d: "\<forall>p\<in>set jump_prices. date p \<noteq> ''2025-01-04''"
    by (simp add: jump_prices_def bar_def)
  have n: "cfg_run_date test_config = None" by (simp add: test_config_def)
  from compute_signals_raises
    [where run_date = "Some ''2025-01-04''" and cfg = test_config and prices = jump_prices
       and rd = "''2025-01-04''" and uni = "[member ''AAA'']"] d
  have a: "compute_signals test_config (Some ''2025-01-04'') jump_prices [member ''AAA'']
     = Inl (NoSignalRows ''2025-01-04'')" by simp
  from compute_signals_raises
    [where run_date = None and cfg = test_config and prices = "[]" and uni = "[member ''AAA'']"] n
  have b: "resolve_run_date test_config [] = Inl SilverPriceEmpty
     \<and> compute_signals test_config None [] [member ''AAA''] = Inl SilverPriceEmpty" by simp
  show ?thesis using a b n by simp
qed

subsection \<open>The 200-day cross flags\<close>

text \<open>
  C2. compute_signals at a symbol with close 10 then 20, run date the second day: in
  \<open>base\<close> the state close > sma_200 goes from false to true, yet above_200_prev is NULL on
  the output row and flag_200d_cross_up is false. Likewise with close 10, 30, 5 and run date
  the third day: the state goes from true to false and flag_200d_cross_down is false. The
  \<open>LAG\<close> of the final SELECT sees only the rows that passed \<open>WHERE date = run_date\<close>.
\<close>

theorem cross_flags_never_set:
  "(\<exists>r. compute_signals test_config (Some ''2025-01-02'') cross_prices [member ''AAA''] = Inr [r]
        \<and> map (\<lambda>b. sql_gt (close b) (sma_200 b)) (base (join_universe cross_prices [member ''AAA'']))
            = [Some False, Some True]
        \<and> above_200_curr r = Some True \<and> above_200_prev r = None
        \<and> \<not> flag_200d_cross_up r)
   \<and> (\<exists>r. compute_signals test_config (Some ''2025-01-03'') cross_down_prices [member ''AAA''] = Inr [r]
        \<and> map (\<lambda>b. sql_gt (close b) (sma_200 b)) (base (join_universe cross_down_prices [member ''AAA'']))
            = [Some False, Some True, Some False]
        \<and> above_200_curr r = Some False \<and> above_200_prev r = None
        \<and> \<not> flag_200d_cross_down r)"
proof -
  have up: "\<exists>r. compute_signals test_config (Some ''2025-01-02'') cross_prices [member ''AAA''] = Inr [r]
        \<and> map (\<lambda>b. sql_gt (close b) (sma_200 b)) (base (join_universe cross_prices [member ''AAA'']))
            = [Some False, Some True]
        \<and> above_200_curr r = Some True \<and> above_200_prev r = None
        \<and> \<not> flag_200d_cross_up r"
    by (simp add: sig_defs cross_prices_def Let_def)
  have down: "\<exists>r. compute_signals test_config (Some ''2025-01-03'') cross_down_prices [member ''AAA''] = Inr [r]
        \<and> map (\<lambda>b. sql_gt (close b) (sma_200 b)) (base (join_universe cross_down_prices [member ''AAA'']))
            = [Some False, Some True, Some False]
        \<and> above_200_curr r = Some False \<and> above_200_prev r = None
        \<and> \<not> flag_200d_cross_down r"
    by (simp add: sig_defs cross_down_prices_def Let_def)
  show ?thesis using up down by (rule conjI)
qed

subsection \<open>The trailing windows\<close>

text \<open>
  For a table of one symbol with strictly increasing dates, joined with a universe holding
  that symbol once, the query returns one row for a date of the table.
\<close>

lemma join_single: "\<forall>p\<in>set prices. symbol p = s \<Longrightarrow> join_universe prices [member s] = prices"
  by (induction prices) (simp_all add: join_universe_def member_def)

lemma remdups_const: "xs \<noteq> [] \<Longrightarrow> set xs \<subseteq> {a} \<Longrightarrow> remdups xs = [a]"
proof (induction xs)
  case Nil
  then show ?case by simp
next
  case (Cons x xs)
  have x: "x = a" using Cons.prems(2) by simp
  show ?case
  proof (cases "xs = []")
    case True
    then show ?thesis using x by simp
  next
    case False
    then have "remdups xs = [a]" using Cons.IH Cons.prems(2) by simp
    moreover have "a \<in> set xs" using False Cons.prems(2) by (cases xs) auto
    ultimately show ?thesis using x by simp
  qed
qed

lemma partition_single:
  assumes "rows \<noteq> []" and "\<forall>p\<in>set rows. symbol p = s" and "sorted (map date rows)"
  shows "partition_by_symbol rows = [rows]"
proof -
  have "remdups (map symbol rows) = [s]" using assms(1,2) by (intro remdups_const) auto
  moreover have "filter (\<lambda>r. symbol r = s) rows = rows" using assms(2) by simp
  moreover have "sort_key date rows = rows" using assms(3) by (rule sort_key_id_if_sorted)
  ultimately show ?thesis by (simp add: partition_by_symbol_def)
qed

lemma filter_index: "i < n \<Longrightarrow> filter (\<lambda>j. j = i) [0..<n] = [i]"
proof (induction n)
  case 0
  then show ?case by simp
next
  case (Suc n)
  show ?case
  proof (cases "i = n")
    case True
    then have "filter (\<lambda>j. j = i) [0..<n] = []" by (auto simp: filter_empty_conv)
    then show ?thesis using True by simp
  next
    case False
    then have "i < n" using Suc.prems by simp
    then show ?thesis using Suc.IH False by simp
  qed
qed

lemma returns_of_symbol: "symbol (returns_of b) = symbol b"
  by (simp add: returns_of_def base_row.extend_def)

lemma base_at_symbol: "symbol (base_at part i) = symbol (part ! i)"
  by (simp add: base_at_def price_bar.extend_def)

lemma single_symbol_query:
  assumes sym: "\<forall>p\<in>set prices. symbol p = s"
    and srt: "sorted_wrt (<) (map date prices)"
    and i: "i < length prices"
  shows "signals_query (date (prices ! i)) prices [member s]
           = [final_at [returns_of (base_at prices i)] 0]"
proof -
  let ?n = "length prices"
  let ?x = "returns_of (base_at prices i)"
  have ne: "prices \<noteq> []" using i by auto
  have s1: "sorted (map date prices)" and d1: "distinct (map date prices)"
    using srt strict_sorted_iff by blast+
  have b: "base (join_universe prices [member s]) = map (base_at prices) [0..<?n]"
    by (simp add: join_single [OF sym] base_def partition_single [OF ne sym s1])
  have eq: "\<And>j. j \<in> set [0..<?n] \<Longrightarrow>
              (date (returns_of (base_at prices j)) = date (prices ! i)) = (j = i)"
  proof -
    fix j assume "j \<in> set [0..<?n]"
    then have j: "j < length (map date prices)" by simp
    have "(map date prices ! j = map date prices ! i) = (j = i)"
      using d1 j i by (simp add: nth_eq_iff_index_eq del: nth_map)
    then show "(date (returns_of (base_at prices j)) = date (prices ! i)) = (j = i)"
      using j i by (simp add: returns_of_date base_at_date)
  qed
  have "filter (\<lambda>r. date r = date (prices ! i)) (map returns_of (map (base_at prices) [0..<?n]))
          = map (\<lambda>j. returns_of (base_at prices j))
              (filter (\<lambda>j. date (returns_of (base_at prices j)) = date (prices ! i)) [0..<?n])"
    by (simp add: filter_map comp_def)
  also have "filter (\<lambda>j. date (returns_of (base_at prices j)) = date (prices ! i)) [0..<?n]
          = filter (\<lambda>j. j = i) [0..<?n]"
    using eq by (rule filter_cong [OF refl])
  also have "\<dots> = [i]" using i by (rule filter_index)
  finally have sel: "filter (\<lambda>r. date r = date (prices ! i))
                       (map returns_of (base (join_universe prices [member s]))) = [?x]"
    by (simp add: b)
  have "partition_by_symbol [?x] = [[?x]]" by (simp add: partition_by_symbol_def)
  then show ?thesis by (simp add: signals_query_def sel)
qed

lemma compute_signals_single:
  "signals_query rd prices uni = [q]
     \<Longrightarrow> compute_signals cfg (Some rd) prices uni = Inr [add_flags cfg q]"
  by (simp add: compute_signals_def sort_by_score_desc_def order_by_desc_def)

lemma window_frame_upt:
  "hi \<le> i \<Longrightarrow> i < n \<Longrightarrow> window_frame lo hi (map f [0..<n]) i = map f [i - lo..<Suc (i - hi)]"
  by (simp add: window_frame_def take_map drop_map)

lemma single_row_cols:
  "close_60d_mean (add_flags cfg (final_at [returns_of (base_at part i)] 0))
     = sql_avg (map close (window_frame 59 1 part i))"
  "close_60d_std (add_flags cfg (final_at [returns_of (base_at part i)] 0))
     = sql_stddev_pop (map close (window_frame 59 1 part i))"
  "vol_60d_median (add_flags cfg (final_at [returns_of (base_at part i)] 0))
     = sql_median (map volume (window_frame 59 1 part i))"
  "high_252d_max (add_flags cfg (final_at [returns_of (base_at part i)] 0))
     = sql_max (map high (window_frame 251 1 part i))"
  "low_252d_min (add_flags cfg (final_at [returns_of (base_at part i)] 0))
     = sql_min (map low (window_frame 251 1 part i))"
  "is_52w_high (add_flags cfg (final_at [returns_of (base_at part i)] 0))
     = sql_ge (high (part ! i)) (sql_max (map high (window_frame 251 1 part i)))"
  "is_52w_low (add_flags cfg (final_at [returns_of (base_at part i)] 0))
     = sql_le (low (part ! i)) (sql_min (map low (window_frame 251 1 part i)))"
  by (simp_all add: add_flags_def final_at_def returns_of_def base_at_def Let_def row_ext_defs)

lemma single_row_z:
  "sql_stddev_pop (map close (window_frame 59 1 part i)) = Some 0
     \<Longrightarrow> z_ret_1d (add_flags cfg (final_at [returns_of (base_at part i)] 0)) = None"
  by (simp add: add_flags_def final_at_def returns_of_def base_at_def Let_def row_ext_defs)


lemma map_const_on: "\<forall>x\<in>set xs. f x = c \<Longrightarrow> map f xs = replicate (length xs) c"
  by (induction xs) auto

lemma non_null_replicate: "non_null (replicate n (Some c)) = replicate n c"
  by (induction n) auto

lemma fold_max_replicate: "fold max (replicate k c) a = (if k = 0 then a else max c (a::real))"
  by (induction k arbitrary: a) (auto simp del: fold_replicate)

lemma fold_min_replicate: "fold min (replicate k c) a = (if k = 0 then a else min c (a::real))"
  by (induction k arbitrary: a) (auto simp del: fold_replicate)

lemma sql_avg_replicate: "0 < n \<Longrightarrow> sql_avg (replicate n (Some c)) = Some c"
  by (simp add: sql_avg_def non_null_replicate sum_list_replicate)

lemma sql_stddev_pop_replicate: "0 < n \<Longrightarrow> sql_stddev_pop (replicate n (Some c)) = Some 0"
  by (simp add: sql_stddev_pop_def non_null_replicate sum_list_replicate Let_def)

lemma sql_max_replicate: "sql_max (Some a # replicate k (Some c)) = Some (if k = 0 then a else max c a)"
  by (simp add: sql_max_def non_null_replicate fold_max_replicate del: fold_replicate)

lemma sql_min_replicate: "sql_min (Some a # replicate k (Some c)) = Some (if k = 0 then a else min c a)"
  by (simp add: sql_min_def non_null_replicate fold_min_replicate del: fold_replicate)

lemma iso_step: "list_all (\<lambda>k. iso_date k < iso_date (Suc k)) [0..<252]"
  by code_simp

lemma year_bar_cols:
  "symbol (year_bar k) = ''AAA''" "date (year_bar k) = iso_date k"
  "close (year_bar k) = Some (if k = 192 then 1000 else 10)"
  "high (year_bar k) = Some (if k = 0 then 5000 else 11)"
  "low (year_bar k) = Some (if k = 0 then 1 else 9)"
  by (simp_all add: year_bar_def bar_def)

lemma year_dates_sorted: "sorted_wrt (<) (map date year_prices)"
proof -
  have m: "map date year_prices = map iso_date [0..<253]"
    by (simp add: year_prices_def year_bar_cols comp_def)
  have "\<forall>k. Suc k < 253 \<longrightarrow> iso_date k < iso_date (Suc k)"
    using iso_step by (simp add: list_all_iff)
  then have "\<forall>k. Suc k < length (map iso_date [0..<253])
               \<longrightarrow> map iso_date [0..<253] ! k < map iso_date [0..<253] ! Suc k"
    by simp
  then have "sorted_wrt (<) (map iso_date [0..<253])"
    by (subst sorted_wrt_iff_nth_Suc_transp) (simp_all only: transp_on_less simp_thms)
  then show ?thesis by (simp only: m)
qed

lemma len_193: "length [193..<252] = 59" and len_1: "length [1..<252] = 251"
  by simp_all

lemma year_closes: "map close (map year_bar [193..<252]) = replicate 59 (Some 10)"
proof -
  have "map (close \<circ> year_bar) [193..<252] = replicate (length [193..<252]) (Some 10)"
    by (rule map_const_on) (simp add: year_bar_cols)
  then show ?thesis by (simp only: len_193 map_map)
qed

lemma year_highs: "map high (map year_bar [1..<252]) = replicate 251 (Some 11)"
proof -
  have "map (high \<circ> year_bar) [1..<252] = replicate (length [1..<252]) (Some 11)"
    by (rule map_const_on) (simp add: year_bar_cols)
  then show ?thesis by (simp only: len_1 map_map)
qed

lemma year_lows: "map low (map year_bar [1..<252]) = replicate 251 (Some 9)"
proof -
  have "map (low \<circ> year_bar) [1..<252] = replicate (length [1..<252]) (Some 9)"
    by (rule map_const_on) (simp add: year_bar_cols)
  then show ?thesis by (simp only: len_1 map_map)
qed

lemma upt_192: "[192..<252] = 192 # [193..<252]" and upt_0: "[0..<252] = 0 # [1..<252]"
  by (simp_all add: upt_conv_Cons)

lemma replicate_59: "replicate 59 x = x # replicate 58 x"
  and replicate_251: "replicate 251 x = x # replicate 250 x"
  by (simp_all add: replicate_Suc [symmetric] del: replicate_Suc)

text \<open>
  C1. compute_signals at a year of daily bars of AAA, run date day 252. The 60 bars before
  the run date are days 192 to 251 and the 252 bars before it are days 0 to 251. The row
  returned has close_60d_mean, close_60d_std and vol_60d_median aggregated over days 193 to
  251 (59 bars) and high_252d_max, low_252d_min over days 1 to 251 (251 bars): the mean
  is 10, the deviation 0 and z_ret_1d NULL, where the mean over the 60 bars is 26.5; the
  52-week maximum is 11 and the minimum 9, so is_52w_high and is_52w_low hold, where the
  extrema over the 252 bars are 5000 and 1.
\<close>

theorem trailing_windows_one_bar_short:
  "\<exists>r. compute_signals test_config (Some (iso_date 252)) year_prices [member ''AAA''] = Inr [r]
     \<and> close_60d_mean r = sql_avg (map close (map year_bar [193..<252]))
     \<and> close_60d_std r = sql_stddev_pop (map close (map year_bar [193..<252]))
     \<and> vol_60d_median r = sql_median (map volume (map year_bar [193..<252]))
     \<and> high_252d_max r = sql_max (map high (map year_bar [1..<252]))
     \<and> low_252d_min r = sql_min (map low (map year_bar [1..<252]))
     \<and> close_60d_mean r = Some 10 \<and> close_60d_std r = Some 0 \<and> z_ret_1d r = None
     \<and> high_252d_max r = Some 11 \<and> is_52w_high r = Some True
     \<and> low_252d_min r = Some 9 \<and> is_52w_low r = Some True
     \<and> sql_avg (map close (map year_bar [192..<252])) = Some (53 / 2)
     \<and> sql_max (map high (map year_bar [0..<252])) = Some 5000
     \<and> sql_min (map low (map year_bar [0..<252])) = Some 1"
proof -
  let ?r = "add_flags test_config (final_at [returns_of (base_at year_prices 252)] 0)"
  have len: "252 < length year_prices" by (simp add: year_prices_def)
  have sym: "\<forall>p\<in>set year_prices. symbol p = ''AAA''"
    by (auto simp: year_prices_def year_bar_cols)
  have last: "year_prices ! 252 = year_bar 252" by (simp add: year_prices_def del: upt_Suc)
  have "signals_query (date (year_prices ! 252)) year_prices [member ''AAA'']
          = [final_at [returns_of (base_at year_prices 252)] 0]"
    using sym year_dates_sorted len by (rule single_symbol_query)
  then have q: "signals_query (iso_date 252) year_prices [member ''AAA'']
          = [final_at [returns_of (base_at year_prices 252)] 0]"
    by (simp only: last year_bar_cols)
  have run: "compute_signals test_config (Some (iso_date 252)) year_prices [member ''AAA'']
          = Inr [?r]"
    using q by (rule compute_signals_single)
  have f60: "window_frame 59 1 year_prices 252 = map year_bar [193..<252]"
    unfolding year_prices_def by (subst window_frame_upt) simp_all
  have f252: "window_frame 251 1 year_prices 252 = map year_bar [1..<252]"
    unfolding year_prices_def by (subst window_frame_upt) simp_all
  have c1: "close_60d_mean ?r = sql_avg (map close (map year_bar [193..<252]))"
    by (simp only: single_row_cols f60)
  have c2: "close_60d_std ?r = sql_stddev_pop (map close (map year_bar [193..<252]))"
    by (simp only: single_row_cols f60)
  have c3: "vol_60d_median ?r = sql_median (map volume (map year_bar [193..<252]))"
    by (simp only: single_row_cols f60)
  have c4: "high_252d_max ?r = sql_max (map high (map year_bar [1..<252]))"
    by (simp only: single_row_cols f252)
  have c5: "low_252d_min ?r = sql_min (map low (map year_bar [1..<252]))"
    by (simp only: single_row_cols f252)
  have v1: "sql_avg (map close (map year_bar [193..<252])) = Some 10"
    by (simp only: year_closes) (simp add: sql_avg_replicate)
  have v2: "sql_stddev_pop (map close (map year_bar [193..<252])) = Some 0"
    by (simp only: year_closes) (simp add: sql_stddev_pop_replicate)
  have v3: "z_ret_1d ?r = None"
    by (rule single_row_z) (simp only: f60 v2)
  have v4: "sql_max (map high (map year_bar [1..<252])) = Some 11"
    by (simp only: year_highs replicate_251 sql_max_replicate) simp
  have v5: "sql_min (map low (map year_bar [1..<252])) = Some 9"
    by (simp only: year_lows replicate_251 sql_min_replicate) simp
  have v6: "is_52w_high ?r = Some True"
    by (simp only: single_row_cols f252 v4 last year_bar_cols) simp
  have v7: "is_52w_low ?r = Some True"
    by (simp only: single_row_cols f252 v5 last year_bar_cols) simp
  have w1: "sql_avg (map close (map year_bar [192..<252])) = Some (53 / 2)"
    by (simp only: upt_192 list.map year_closes year_bar_cols)
       (simp add: sql_avg_def non_null_replicate sum_list_replicate)
  have w2: "sql_max (map high (map year_bar [0..<252])) = Some 5000"
    by (simp only: upt_0 list.map year_highs year_bar_cols sql_max_replicate) simp
  have w3: "sql_min (map low (map year_bar [0..<252])) = Some 1"
    by (simp only: upt_0 list.map year_lows year_bar_cols sql_min_replicate) simp
  show ?thesis
    using run c1 c2 c3 c4 c5 v1 v2 v3 v4 v5 v6 v7 w1 w2 w3 by (intro exI [of _ ?r]) simp
qed

subsection \<open>Price ingestion with failing symbols\<close>

lemmas ingest_defs = ingest_prices_def load_latest_universe_parquet_def future_result_def
  fetch_prices_for_symbol_def normalize_hist_response_def DataFrame_def rename_column_def
  set_column_def select_columns_def required_cols_def cell_def usable_def

lemma usable_iff:
  "usable td cl s = (\<exists>r rs. fetch_prices_for_symbol td s cl = Returned (Some (r # rs)))"
  by (auto simp: usable_def neq_Nil_conv split: outcome.splits option.splits)

lemma future_result_usable:
  "(\<exists>r rs. future_result td cl s = Some (r # rs)) = usable td cl s"
  by (auto simp: usable_iff future_result_def split: outcome.splits)

lemma collect_frames_Nil:
  "collect_frames td cl order = [] \<longleftrightarrow> (\<forall>s\<in>set order. \<not> usable td cl s)"
proof (induction order)
  case Nil
  then show ?case by simp
next
  case (Cons s order)
  show ?case
  proof (cases "usable td cl s")
    case True
    then obtain r rs where "future_result td cl s = Some (r # rs)"
      using future_result_usable by blast
    then show ?thesis using True by simp
  next
    case False
    then have "\<not> (\<exists>r rs. future_result td cl s = Some (r # rs))"
      using future_result_usable by blast
    then have "collect_frames td cl (s # order) = collect_frames td cl order"
      by (auto split: option.splits list.splits)
    then show ?thesis using False Cons.IH by simp
  qed
qed

lemma collect_frames_set:
  "set (collect_frames td cl order)
     = {df. df \<noteq> [] \<and> (\<exists>s\<in>set order. fetch_prices_for_symbol td s cl = Returned (Some df))}"
proof (induction order)
  case Nil
  then show ?case by simp
next
  case (Cons s order)
  show ?case
  proof (cases "fetch_prices_for_symbol td s cl")
    case Raised
    then show ?thesis using Cons.IH by (auto simp: future_result_def)
  next
    case (Returned odf)
    show ?thesis
    proof (cases odf)
      case None
      then show ?thesis using Returned Cons.IH by (auto simp: future_result_def)
    next
      case (Some df)
      then show ?thesis using Returned Cons.IH
        by (cases df) (auto simp: future_result_def)
    qed
  qed
qed

lemma cell_map_cols:
  "cell (map (\<lambda>k. (k, g k)) cols) c = (if c \<in> set cols then g c else JNull)"
  by (induction cols) (auto simp: cell_def)

lemma set_column_cell:
  assumes "r' \<in> set (df_rows (set_column c f df))"
  shows "\<exists>r\<in>set (df_rows df). \<forall>k. cell r' k =
           (if k = c then f r else if k \<in> set (df_columns df) then cell r k else JNull)"
proof -
  from assms obtain r where r: "r \<in> set (df_rows df)"
    and e: "r' = map (\<lambda>k. (k, if k = c then f r else cell r k))
                  (if c \<in> set (df_columns df) then df_columns df else df_columns df @ [c])"
    by (auto simp: set_column_def Let_def)
  have "\<forall>k. cell r' k =
           (if k = c then f r else if k \<in> set (df_columns df) then cell r k else JNull)"
    unfolding e cell_map_cols by auto
  then show ?thesis using r by blast
qed

lemma select_columns_cell:
  assumes "r' \<in> set (df_rows (select_columns cs df))"
  shows "\<exists>r\<in>set (df_rows df). \<forall>k. cell r' k = (if k \<in> set cs then cell r k else JNull)"
proof -
  from assms obtain r where r: "r \<in> set (df_rows df)"
    and e: "r' = map (\<lambda>c. (c, cell r c)) cs"
    by (auto simp: select_columns_def)
  have "\<forall>k. cell r' k = (if k \<in> set cs then cell r k else JNull)"
    unfolding e cell_map_cols by simp
  then show ?thesis using r by blast
qed

lemma fetch_shape:
  assumes "fetch_prices_for_symbol td s cl = Returned (Some df)"
  shows "\<exists>g df2. df = df_rows (select_columns required_cols
            (set_column ''date'' g (set_column ''symbol'' (\<lambda>r. JStr s) df2)))"
proof (cases "cl s")
  case Raised
  then show ?thesis using assms by (simp add: fetch_prices_for_symbol_def)
next
  case (Returned raw)
  show ?thesis
  proof (cases "normalize_hist_response raw")
    case None
    then show ?thesis using assms Returned by (simp add: fetch_prices_for_symbol_def)
  next
    case (Some hist)
    show ?thesis using assms
      by (simp add: fetch_prices_for_symbol_def Returned Some Let_def split: if_splits) blast+
  qed
qed

lemma fetch_symbol_column:
  assumes "fetch_prices_for_symbol td s cl = Returned (Some df)" and "row \<in> set df"
  shows "cell row ''symbol'' = JStr s"
proof -
  from fetch_shape [OF assms(1)] obtain g df2 where
    df: "df = df_rows (select_columns required_cols
            (set_column ''date'' g (set_column ''symbol'' (\<lambda>r. JStr s) df2)))" by blast
  from select_columns_cell [OF assms(2) [unfolded df]] obtain r4
    where r4: "r4 \<in> set (df_rows (set_column ''date'' g (set_column ''symbol'' (\<lambda>r. JStr s) df2)))"
      and c4: "\<forall>k. cell row k = (if k \<in> set required_cols then cell r4 k else JNull)" by blast
  from set_column_cell [OF r4] obtain r3
    where r3: "r3 \<in> set (df_rows (set_column ''symbol'' (\<lambda>r. JStr s) df2))"
      and c3: "\<forall>k. cell r4 k = (if k = ''date'' then g r3
                 else if k \<in> set (df_columns (set_column ''symbol'' (\<lambda>r. JStr s) df2))
                      then cell r3 k else JNull)" by blast
  from set_column_cell [OF r3] obtain r2
    where c2: "\<forall>k. cell r3 k = (if k = ''symbol'' then JStr s
                 else if k \<in> set (df_columns df2) then cell r2 k else JNull)" by blast
  have m: "''symbol'' \<in> set (df_columns (set_column ''symbol'' (\<lambda>r. JStr s) df2))"
    by (simp add: set_column_def Let_def)
  have "cell row ''symbol'' = cell r4 ''symbol''" using c4 by (simp add: required_cols_def)
  also have "\<dots> = cell r3 ''symbol''" using c3 m by simp
  also have "\<dots> = JStr s" using c2 by simp
  finally show ?thesis .
qed

lemma cell_stamped:
  "cell row ''symbol'' = JStr s \<Longrightarrow> cell (row @ [(''ingestion_date'', JStr today)]) ''symbol'' = JStr s"
  by (auto simp: cell_def map_add_def split: option.splits)

text \<open>
  What does hold: when the combined frame can be written, ingest_prices raises exactly when
  no symbol of the latest universe snapshot returns a frame that is not empty, and the
  batch holds the stamped rows of every such frame and no other row.
\<close>

lemma ingest_prices_when_writable:
  assumes syms: "symbols = (case load_latest_universe_parquet uni_files of
                              Inl e \<Rightarrow> []
                            | Inr uni_df \<Rightarrow> sort (remdups (map bu_symbol uni_df)))"
    and sched: "set (as_completed symbols) = set symbols"
    and wr: "writable (map (\<lambda>r. r @ [(''ingestion_date'', JStr today)])
                          (concat (collect_frames td cl (as_completed symbols))))"
  shows "((\<exists>e. ingest_prices td today uni_files cl as_completed = Inl e)
            \<longleftrightarrow> (\<forall>s\<in>set symbols. \<not> usable td cl s))
       \<and> (\<forall>batch. ingest_prices td today uni_files cl as_completed = Inr batch \<longrightarrow>
            (\<forall>s\<in>set symbols. \<forall>df. fetch_prices_for_symbol td s cl = Returned (Some df) \<longrightarrow>
               (\<forall>row\<in>set df. row @ [(''ingestion_date'', JStr today)] \<in> set batch))
          \<and> (\<forall>row\<in>set batch. \<exists>s\<in>set symbols. usable td cl s \<and> cell row ''symbol'' = JStr s))"
proof (cases "load_latest_universe_parquet uni_files")
  case (Inl e)
  then have "symbols = []" using syms by simp
  moreover have "ingest_prices td today uni_files cl as_completed = Inl e"
    using Inl by (simp add: ingest_prices_def)
  ultimately show ?thesis by simp
next
  case (Inr uni_df)
  let ?frames = "collect_frames td cl (as_completed symbols)"
  let ?stamp = "\<lambda>r. r @ [(''ingestion_date'', JStr today)]"
  have s: "symbols = sort (remdups (map bu_symbol uni_df))" using syms Inr by simp
  have res: "ingest_prices td today uni_files cl as_completed
               = (if ?frames = [] then Inl NoPriceData else Inr (map ?stamp (concat ?frames)))"
    using Inr wr by (simp add: ingest_prices_def s Let_def to_parquet_def)
  have none: "?frames = [] \<longleftrightarrow> (\<forall>s\<in>set symbols. \<not> usable td cl s)"
    by (simp only: collect_frames_Nil sched)
  have 1: "(\<exists>e. ingest_prices td today uni_files cl as_completed = Inl e)
             \<longleftrightarrow> (\<forall>s\<in>set symbols. \<not> usable td cl s)"
    unfolding res using none by auto
  have 2: "\<forall>batch. ingest_prices td today uni_files cl as_completed = Inr batch \<longrightarrow>
            (\<forall>s\<in>set symbols. \<forall>df. fetch_prices_for_symbol td s cl = Returned (Some df) \<longrightarrow>
               (\<forall>row\<in>set df. row @ [(''ingestion_date'', JStr today)] \<in> set batch))
          \<and> (\<forall>row\<in>set batch. \<exists>s\<in>set symbols. usable td cl s \<and> cell row ''symbol'' = JStr s)"
  proof (intro allI impI)
    fix batch assume "ingest_prices td today uni_files cl as_completed = Inr batch"
    then have b: "batch = map ?stamp (concat ?frames)"
      unfolding res by (simp split: if_splits)
    have a: "\<forall>s\<in>set symbols. \<forall>df. fetch_prices_for_symbol td s cl = Returned (Some df) \<longrightarrow>
               (\<forall>row\<in>set df. ?stamp row \<in> set batch)"
    proof (intro ballI allI impI)
      fix s df row
      assume s: "s \<in> set symbols" and f: "fetch_prices_for_symbol td s cl = Returned (Some df)"
        and r: "row \<in> set df"
      have "df \<noteq> []" using r by auto
      then have "df \<in> set ?frames" using s f sched by (auto simp: collect_frames_set)
      then have "row \<in> set (concat ?frames)" using r by auto
      then show "?stamp row \<in> set batch" unfolding b by simp
    qed
    have c: "\<forall>row\<in>set batch. \<exists>s\<in>set symbols. usable td cl s \<and> cell row ''symbol'' = JStr s"
    proof
      fix row assume "row \<in> set batch"
      then obtain r0 df where row: "row = ?stamp r0" and r0: "r0 \<in> set df"
        and df: "df \<in> set ?frames" unfolding b by auto
      from df obtain s where s: "s \<in> set symbols" and ne: "df \<noteq> []"
        and f: "fetch_prices_for_symbol td s cl = Returned (Some df)"
        using sched by (auto simp: collect_frames_set)
      have u: "usable td cl s" using f ne by (simp add: usable_def)
      have "cell row ''symbol'' = JStr s"
        unfolding row using fetch_symbol_column [OF f r0] by (rule cell_stamped)
      then show "\<exists>s\<in>set symbols. usable td cl s \<and> cell row ''symbol'' = JStr s"
        using s u by blast
    qed
    show "(\<forall>s\<in>set symbols. \<forall>df. fetch_prices_for_symbol td s cl = Returned (Some df) \<longrightarrow>
               (\<forall>row\<in>set df. row @ [(''ingestion_date'', JStr today)] \<in> set batch))
          \<and> (\<forall>row\<in>set batch. \<exists>s\<in>set symbols. usable td cl s \<and> cell row ''symbol'' = JStr s)"
      using a c by (rule conjI)
  qed
  show ?thesis using 1 2 by (rule conjI)
qed

text \<open>
  C9. ingest_prices over the universe AAA, BBB, CCC. When the fetch of BBB raises, the batch
  is written with the rows of AAA and CCC. When the reply for BBB has the text n/a in its
  close field, the fetch of BBB returns a frame (only the presence of the columns is
  checked), the frames of AAA and CCC are collected too, and writing the combined frame
  raises: ingest_prices fails although AAA and CCC produced usable data.
\<close>

theorem ingest_prices_aborts_on_text_field:
  "ingest_prices keep_date ''2025-01-10'' feed_universe feed_client (\<lambda>order. order) =
     Inr [[(''symbol'', JStr ''AAA''), (''date'', JStr ''2025-01-01''),
           (''open'', JNum 10), (''high'', JNum 11), (''low'', JNum 9),
           (''close'', JNum (21 / 2)), (''adj_close'', JNum (21 / 2)),
           (''volume'', JNum 1000), (''ingestion_date'', JStr ''2025-01-10'')],
          [(''symbol'', JStr ''CCC''), (''date'', JStr ''2025-01-01''),
           (''open'', JNum 20), (''high'', JNum 21), (''low'', JNum 19),
           (''close'', JNum (41 / 2)), (''adj_close'', JNum (41 / 2)),
           (''volume'', JNum 2000), (''ingestion_date'', JStr ''2025-01-10'')]]
   \<and> usable keep_date tainted_client ''AAA'' \<and> usable keep_date tainted_client ''CCC''
   \<and> fetch_prices_for_symbol keep_date ''BBB'' tainted_client =
       Returned (Some [[(''symbol'', JStr ''BBB''), (''date'', JStr ''2025-01-01''),
           (''open'', JNum 30), (''high'', JNum 31), (''low'', JNum 29),
           (''close'', JStr ''n/a''), (''adj_close'', JNum 30), (''volume'', JNum 3000)]])
   \<and> ingest_prices keep_date ''2025-01-10'' feed_universe tainted_client (\<lambda>order. order) =
       Inl ParquetWriteError"
  by (simp add: ingest_defs feed_client_def tainted_client_def keep_date_def feed_universe_def
        raw_member_def to_parquet_def writable_def numeric_cols_def is_text_def is_number_def
        Let_def)

end
